theory Spec2Isabelle
  imports Main
begin

section \<open>Entity types\<close>

text \<open>
  The importers of \<^verbatim>\<open>rasa/importers/importer.py\<close> pass around five kinds of values
  whose classes live in other modules: events, messages, training data, story graphs and
  domains. The importer code only builds them, reads a few attributes and calls
  \<^verbatim>\<open>merge\<close>; the types below hold exactly what it touches.
\<close>

type_synonym Text = string

text \<open>Any exception a call may raise; \<^verbatim>\<open>NotImplementedError\<close> is what the base contract raises.\<close>

datatype error = NotImplementedError | Exception Text

text \<open>
  Modelled from the spec: the attribute-name constants of \<^verbatim>\<open>rasa.nlu.constants\<close>
  (the module is not among the sources). The spec names the intent label, the action name
  and the action text as three separate attributes of a message; any other key a message of
  the wrapped importer may carry is \<open>OtherAttribute\<close>.
\<close>

datatype attribute =
    MESSAGE_INTENT_NAME
  | MESSAGE_ACTION_NAME
  | ACTION_TEXT
  | OtherAttribute Text

text \<open>
  Modelled from the spec: the class \<^verbatim>\<open>Message\<close> of \<^verbatim>\<open>rasa.nlu.training_data\<close> (not among
  the sources): one training example, free text plus a mapping of named attributes to
  values. The importer and the tests build it as \<^verbatim>\<open>Message(text, data={...})\<close>. The field
  \<^verbatim>\<open>text\<close> is called \<open>message_text\<close> here. The class is taken to define no truth value
  of its own: a \<^verbatim>\<open>Message\<close> object is true in a condition, as every Python object is
  unless its class says otherwise.
\<close>

record Message =
  message_text :: Text
  data :: "attribute \<rightharpoonup> Text"

text \<open>
  Modelled from the spec: the event classes of \<^verbatim>\<open>rasa.core.events\<close> (not among the
  sources). A user utterance carries free text and a resolved intent label; an executed
  action carries an action name and, optionally, an end-to-end text (\<^verbatim>\<open>None\<close> when the
  story names a canned response). These are the attributes the importer reads:
  \<^verbatim>\<open>event.text\<close> (called \<open>user_text\<close> here), \<^verbatim>\<open>event.intent_name\<close>,
  \<^verbatim>\<open>event.action_name\<close> and \<^verbatim>\<open>event.e2e_text\<close>. The importer tells the classes apart
  with \<^verbatim>\<open>isinstance\<close>; every other event is an \<open>OtherEvent\<close>.
\<close>

record UserUttered =
  user_text :: Text
  intent_name :: Text

record ActionExecuted =
  action_name :: Text
  e2e_text :: "Text option"

datatype Event =
    UserUtteredEvent UserUttered
  | ActionExecutedEvent ActionExecuted
  | OtherEvent Text

text \<open>
  Modelled from the spec: story steps, story graphs and training data (classes of
  \<^verbatim>\<open>rasa.core.training.structures\<close> and \<^verbatim>\<open>rasa.nlu.training_data\<close>, not among the
  sources). A story graph is a collection of story steps, each holding a sequence of
  events; training data is a collection of messages. The importer builds them from a list
  (\<^verbatim>\<open>StoryGraph([])\<close>, \<^verbatim>\<open>TrainingData(messages)\<close>, \<^verbatim>\<open>TrainingData()\<close> for the empty one) and
  reads \<^verbatim>\<open>stories.story_steps\<close> and \<^verbatim>\<open>story_step.events\<close>. Like \<^verbatim>\<open>Message\<close>, the class
  \<^verbatim>\<open>StoryGraph\<close> is taken to define no truth value of its own.
\<close>

datatype StoryStep = StoryStep (events: "Event list")

datatype StoryGraph = StoryGraph (story_steps: "StoryStep list")

datatype TrainingData = TrainingData (training_examples: "Message list")

text \<open>
  Modelled from the spec: \<^verbatim>\<open>TrainingData.merge\<close> and \<^verbatim>\<open>StoryGraph.merge\<close> (the classes
  are not among the sources). Merging training data concatenates the example collections
  without removing duplicates; merging story graphs takes the steps of both.
\<close>

definition TrainingData_merge :: "TrainingData \<Rightarrow> TrainingData \<Rightarrow> TrainingData" where
  "TrainingData_merge merged other =
     TrainingData (training_examples merged @ training_examples other)"

definition StoryGraph_merge :: "StoryGraph \<Rightarrow> StoryGraph \<Rightarrow> StoryGraph" where
  "StoryGraph_merge merged other = StoryGraph (story_steps merged @ story_steps other)"

text \<open>
  Modelled from the spec: the class \<^verbatim>\<open>Domain\<close> (not among the sources). A domain is the
  set of declared intents, entities, slots, response templates, actions and form names; its
  constructor takes them in that order (the templates as a dictionary, of which the names
  are kept); \<^verbatim>\<open>Domain.empty()\<close> declares nothing and \<^verbatim>\<open>merge\<close> is the union of all
  declared elements.
\<close>

record Domain =
  intents :: "Text set"
  entities :: "Text set"
  slots :: "Text set"
  templates :: "Text set"
  action_names :: "Text set"
  form_names :: "Text set"

definition Domain_init ::
  "Text list \<Rightarrow> Text list \<Rightarrow> Text list \<Rightarrow> (Text \<rightharpoonup> Text) \<Rightarrow> Text list \<Rightarrow> Text list \<Rightarrow> Domain" where
  "Domain_init its ents sls tmpls acts forms =
     \<lparr>intents = set its, entities = set ents, slots = set sls, templates = dom tmpls,
      action_names = set acts, form_names = set forms\<rparr>"

definition Domain_empty :: Domain where
  "Domain_empty = Domain_init [] [] [] Map.empty [] []"

definition Domain_merge :: "Domain \<Rightarrow> Domain \<Rightarrow> Domain" where
  "Domain_merge merged other =
     \<lparr>intents = intents merged \<union> intents other,
      entities = entities merged \<union> entities other,
      slots = slots merged \<union> slots other,
      templates = templates merged \<union> templates other,
      action_names = action_names merged \<union> action_names other,
      form_names = form_names merged \<union> form_names other\<rparr>"

section \<open>The contract\<close>

text \<open>
  The arguments of \<^verbatim>\<open>get_stories\<close>. The interpreter is an opaque object; the default
  is \<^verbatim>\<open>RegexInterpreter()\<close>.
\<close>

datatype NaturalLanguageInterpreter = RegexInterpreter | OtherInterpreter nat

record story_args =
  interpreter :: NaturalLanguageInterpreter
  template_variables :: "(Text \<rightharpoonup> Text) option"
  use_e2e :: bool
  exclusion_percentage :: "int option"

definition default_story_args :: story_args where
  "default_story_args =
     \<lparr>interpreter = RegexInterpreter, template_variables = None, use_e2e = False,
      exclusion_percentage = None\<rparr>"

type_synonym 'v Dict = "Text \<rightharpoonup> 'v"

text \<open>
  \<^verbatim>\<open>class TrainingDataImporter\<close>: what a wrapper sees of the importer it wraps, namely
  the outcome of each of the four operations, a value or the exception raised. A
  configuration may be \<^verbatim>\<open>None\<close> (the aggregator writes \<^verbatim>\<open>other or {}\<close>).
\<close>

record 'v TrainingDataImporter =
  get_domain :: "error + Domain"
  get_stories :: "story_args \<Rightarrow> error + StoryGraph"
  get_config :: "error + 'v Dict option"
  get_nlu_data :: "Text option \<Rightarrow> error + TrainingData"

text \<open>
  \<^verbatim>\<open>await asyncio.gather(*aws)\<close> with the default \<^verbatim>\<open>return_exceptions=False\<close>: when every
  awaitable returns, the list of all results in argument order; otherwise the first
  exception raised, that is, the exception of the failing awaitable that finishes first.
  The order in which the awaitables finish is decided by the event loop and not by the
  importer code, so it is a parameter of every operation that gathers: \<open>finished\<close> lists
  the positions of the awaitables in the order in which they finish. A position that is out
  of range stands for nothing, and the awaitables that \<open>finished\<close> does not list finish
  after the listed ones, in argument order.

  \<open>first_raised aws order\<close> is the exception of the first failing awaitable met when the
  positions are visited in the given order.
\<close>

fun first_raised :: "(error + 'a) list \<Rightarrow> nat list \<Rightarrow> error option" where
  "first_raised aws [] = None"
| "first_raised aws (i # order) =
     (if i < length aws
      then (case aws ! i of Inl e \<Rightarrow> Some e | Inr x \<Rightarrow> first_raised aws order)
      else first_raised aws order)"

definition gather :: "nat list \<Rightarrow> (error + 'a) list \<Rightarrow> error + 'a list" where
  "gather finished aws =
     (case first_raised aws (finished @ [0..<length aws]) of
        Some e \<Rightarrow> Inl e
      | None \<Rightarrow> Inr (List.map_filter (\<lambda>r. case r of Inl e \<Rightarrow> None | Inr x \<Rightarrow> Some x) aws))"

section \<open>NluDataImporter\<close>

datatype 'v NluDataImporter = NluDataImporter (actual_importer: "'v TrainingDataImporter")

definition NluDataImporter_get_domain :: "'v NluDataImporter \<Rightarrow> error + Domain" where
  "NluDataImporter_get_domain self = Inr Domain_empty"

definition NluDataImporter_get_stories ::
  "'v NluDataImporter \<Rightarrow> story_args \<Rightarrow> error + StoryGraph" where
  "NluDataImporter_get_stories self args = Inr (StoryGraph [])"

definition NluDataImporter_get_config :: "'v NluDataImporter \<Rightarrow> error + 'v Dict option" where
  "NluDataImporter_get_config self = get_config (actual_importer self)"

section \<open>CombinedDataImporter\<close>

datatype 'v CombinedDataImporter =
  CombinedDataImporter (importers: "'v TrainingDataImporter list")

text \<open>
  \<^verbatim>\<open>reduce(f, xs, init)\<close> is \<open>foldl f init xs\<close>; \<^verbatim>\<open>{**merged, **(other or {})}\<close> is the
  map \<open>merged ++ other\<close>, where the keys of \<open>other\<close> win.
\<close>

definition CombinedDataImporter_get_config ::
  "nat list \<Rightarrow> 'v CombinedDataImporter \<Rightarrow> error + 'v Dict" where
  "CombinedDataImporter_get_config finished self =
     (case gather finished (map get_config (importers self)) of
        Inl e \<Rightarrow> Inl e
      | Inr configs \<Rightarrow>
          Inr (foldl (\<lambda>merged other. merged ++ (case other of None \<Rightarrow> Map.empty | Some d \<Rightarrow> d))
                 Map.empty configs))"

definition CombinedDataImporter_get_domain ::
  "nat list \<Rightarrow> 'v CombinedDataImporter \<Rightarrow> error + Domain" where
  "CombinedDataImporter_get_domain finished self =
     (case gather finished (map get_domain (importers self)) of
        Inl e \<Rightarrow> Inl e
      | Inr domains \<Rightarrow> Inr (foldl (\<lambda>merged other. Domain_merge merged other) Domain_empty domains))"

definition CombinedDataImporter_get_stories ::
  "nat list \<Rightarrow> 'v CombinedDataImporter \<Rightarrow> story_args \<Rightarrow> error + StoryGraph" where
  "CombinedDataImporter_get_stories finished self args =
     (case gather finished (map (\<lambda>importer. get_stories importer args) (importers self)) of
        Inl e \<Rightarrow> Inl e
      | Inr stories \<Rightarrow>
          Inr (foldl (\<lambda>merged other. StoryGraph_merge merged other) (StoryGraph []) stories))"

definition CombinedDataImporter_get_nlu_data ::
  "nat list \<Rightarrow> 'v CombinedDataImporter \<Rightarrow> Text option \<Rightarrow> error + TrainingData" where
  "CombinedDataImporter_get_nlu_data finished self language =
     (case gather finished (map (\<lambda>importer. get_nlu_data importer language) (importers self)) of
        Inl e \<Rightarrow> Inl e
      | Inr nlu_data \<Rightarrow>
          Inr (foldl (\<lambda>merged other. TrainingData_merge merged other) (TrainingData []) nlu_data))"

section \<open>Messages from conversation events\<close>

text \<open>\<^verbatim>\<open>t or ""\<close> on an optional text: the text when it is neither \<^verbatim>\<open>None\<close> nor empty.\<close>

fun or_empty :: "Text option \<Rightarrow> Text" where
  "or_empty None = ''''"
| "or_empty (Some t) = (if t = '''' then '''' else t)"

text \<open>The truth value of an optional text in a condition.\<close>

fun truthy :: "Text option \<Rightarrow> bool" where
  "truthy None = False"
| "truthy (Some t) = (t \<noteq> '''')"

definition messages_from_user_utterance :: "UserUttered \<Rightarrow> Message" where
  "messages_from_user_utterance event =
     \<lparr>message_text = user_text event, data = [MESSAGE_INTENT_NAME \<mapsto> intent_name event]\<rparr>"

definition messages_from_action :: "ActionExecuted \<Rightarrow> Message" where
  "messages_from_action event =
     \<lparr>message_text = or_empty (e2e_text event),
      data = [MESSAGE_ACTION_NAME \<mapsto> action_name event, ACTION_TEXT \<mapsto> or_empty (e2e_text event)]\<rparr>"

definition message_from_conversation_event :: "Event \<Rightarrow> Message option" where
  "message_from_conversation_event event =
     (case event of
        UserUtteredEvent u \<Rightarrow> Some (messages_from_user_utterance u)
      | ActionExecutedEvent a \<Rightarrow> Some (messages_from_action a)
      | OtherEvent _ \<Rightarrow> None)"

text \<open>
  The registry \<^verbatim>\<open>action.default_action_names()\<close> belongs to \<^verbatim>\<open>rasa.core.actions\<close>, which
  is not among the sources: the list of names is a parameter.
\<close>

definition additional_training_data_from_default_actions :: "Text list \<Rightarrow> TrainingData" where
  "additional_training_data_from_default_actions default_action_names =
     TrainingData
       (map (\<lambda>action_name. \<lparr>message_text = '''', data = [MESSAGE_ACTION_NAME \<mapsto> action_name]\<rparr>)
          default_action_names)"

section \<open>E2EImporter\<close>

text \<open>
  The object has the two fields of the class. \<open>get_stories_calls\<close> is not a field of the
  class: it records the effect of the object on the importer it wraps, the arguments of
  every \<^verbatim>\<open>self._importer.get_stories(...)\<close> it has made, oldest first.
\<close>

record 'v E2EImporter =
  importer :: "'v TrainingDataImporter"
  cached_stories :: "StoryGraph option"
  get_stories_calls :: "story_args list"

definition E2EImporter_init :: "'v TrainingDataImporter \<Rightarrow> 'v E2EImporter" where
  "E2EImporter_init imp = \<lparr>importer = imp, cached_stories = None, get_stories_calls = []\<rparr>"

text \<open>
  Every method returns its outcome and the object after the call.
  \<^verbatim>\<open>if not self._cached_stories\<close> tests the cache slot: a \<^verbatim>\<open>StoryGraph\<close> object being
  true in a condition, the wrapped importer is called exactly when the slot is still
  \<^verbatim>\<open>None\<close>, which is the spec's "if the cache slot is unset". A call that raises leaves
  the slot as it was.
\<close>

definition E2EImporter_get_stories ::
  "'v E2EImporter \<Rightarrow> story_args \<Rightarrow> (error + StoryGraph) \<times> 'v E2EImporter" where
  "E2EImporter_get_stories self args =
     (case cached_stories self of
        Some stories \<Rightarrow> (Inr stories, self)
      | None \<Rightarrow>
          (let called = self\<lparr>get_stories_calls := get_stories_calls self @ [args]\<rparr> in
           case get_stories (importer self) args of
             Inl e \<Rightarrow> (Inl e, called)
           | Inr stories \<Rightarrow> (Inr stories, called\<lparr>cached_stories := Some stories\<rparr>)))"

definition E2EImporter_get_config :: "'v E2EImporter \<Rightarrow> error + 'v Dict option" where
  "E2EImporter_get_config self = get_config (importer self)"

text \<open>
  \<^verbatim>\<open>list(set(names))\<close> keeps one copy of every name, in no particular order; the domain
  only keeps the set of the names, so \<open>remdups\<close> stands for it.
\<close>

definition get_domain_with_e2e_actions ::
  "'v E2EImporter \<Rightarrow> (error + Domain) \<times> 'v E2EImporter" where
  "get_domain_with_e2e_actions self =
     (case E2EImporter_get_stories self default_story_args of
        (Inl e, self') \<Rightarrow> (Inl e, self')
      | (Inr stories, self') \<Rightarrow>
          (let additional_e2e_action_names =
                 foldl (\<lambda>names story_step.
                          names @ [action_name a. ActionExecutedEvent a \<leftarrow> events story_step,
                                     truthy (e2e_text a)])
                   [] (story_steps stories);
               additional_e2e_action_names = remdups additional_e2e_action_names
           in (Inr (Domain_init [] [] [] Map.empty additional_e2e_action_names []), self')))"

text \<open>
  \<^verbatim>\<open>original, e2e_domain = await asyncio.gather(...)\<close> unpacks the list of the two
  results; unpacking a list of another length raises \<^verbatim>\<open>ValueError\<close> in Python, which does
  not happen here, since \<open>gather\<close> returns one result for each awaitable.
\<close>

definition E2EImporter_get_domain ::
  "nat list \<Rightarrow> 'v E2EImporter \<Rightarrow> (error + Domain) \<times> 'v E2EImporter" where
  "E2EImporter_get_domain finished self =
     (let (e2e, self') = get_domain_with_e2e_actions self in
      (case gather finished [get_domain (importer self), e2e] of
         Inl e \<Rightarrow> Inl e
       | Inr [original, e2e_domain] \<Rightarrow> Inr (Domain_merge original e2e_domain)
       | Inr _ \<Rightarrow> Inl (Exception ''ValueError''),
       self'))"

text \<open>
  \<^verbatim>\<open>if message:\<close> drops the \<^verbatim>\<open>None\<close> that \<^verbatim>\<open>_message_from_conversation_event\<close>
  returns for an event that is neither a user utterance nor an action; a \<^verbatim>\<open>Message\<close>
  object is true in a condition, whatever its text.
\<close>

definition additional_training_data_from_stories ::
  "'v E2EImporter \<Rightarrow> (error + TrainingData) \<times> 'v E2EImporter" where
  "additional_training_data_from_stories self =
     (case E2EImporter_get_stories self default_story_args of
        (Inl e, self') \<Rightarrow> (Inl e, self')
      | (Inr stories, self') \<Rightarrow>
          (Inr (TrainingData
                  (foldl (\<lambda>additional_messages_from_stories story_step.
                            foldl (\<lambda>msgs event.
                                     case message_from_conversation_event event of
                                       None \<Rightarrow> msgs
                                     | Some message \<Rightarrow> msgs @ [message])
                              additional_messages_from_stories (events story_step))
                     [] (story_steps stories))),
           self'))"

text \<open>
  In the \<^verbatim>\<open>only_nlu\<close> branch the list \<^verbatim>\<open>training_datasets\<close> is assigned anew
  (\<^verbatim>\<open>=\<close>); in the other branch the gathered results are appended to it (\<^verbatim>\<open>+=\<close>).
\<close>

definition E2EImporter_get_nlu_data ::
  "Text list \<Rightarrow> nat list \<Rightarrow> 'v E2EImporter \<Rightarrow> Text option \<Rightarrow> bool \<Rightarrow>
     (error + TrainingData) \<times> 'v E2EImporter" where
  "E2EImporter_get_nlu_data default_action_names finished self language only_nlu =
     (let training_datasets = [additional_training_data_from_default_actions default_action_names]
      in
        if only_nlu then
          (case gather finished [get_nlu_data (importer self) language] of
             Inl e \<Rightarrow> (Inl e, self)
           | Inr training_datasets \<Rightarrow>
               (Inr (foldl (\<lambda>merged other. TrainingData_merge merged other) (TrainingData [])
                       training_datasets),
                self))
        else
          (let (from_stories, self') = additional_training_data_from_stories self in
           case gather finished [get_nlu_data (importer self) language, from_stories] of
             Inl e \<Rightarrow> (Inl e, self')
           | Inr gathered \<Rightarrow>
               (Inr (foldl (\<lambda>merged other. TrainingData_merge merged other) (TrainingData [])
                       (training_datasets @ gathered)),
                self')))"

section \<open>Reference definitions and example importers\<close>

text \<open>
  The spec's description of the merged configuration, written without the fold: the value
  of a key is the one given by the last child, in list order, that declares the key.
\<close>

fun last_declared :: "'v Dict list \<Rightarrow> 'v Dict" where
  "last_declared [] k = None"
| "last_declared (d # ds) k = (case last_declared ds k of Some v \<Rightarrow> Some v | None \<Rightarrow> d k)"

text \<open>Importers with fixed answers, and one whose every operation raises.\<close>

definition fixed_importer ::
  "Domain \<Rightarrow> StoryGraph \<Rightarrow> 'v Dict option \<Rightarrow> TrainingData \<Rightarrow> 'v TrainingDataImporter" where
  "fixed_importer d g c n =
     \<lparr>get_domain = Inr d, get_stories = (\<lambda>args. Inr g), get_config = Inr c,
      get_nlu_data = (\<lambda>language. Inr n)\<rparr>"

definition failing_importer :: "error \<Rightarrow> 'v TrainingDataImporter" where
  "failing_importer e =
     \<lparr>get_domain = Inl e, get_stories = (\<lambda>args. Inl e), get_config = Inl e,
      get_nlu_data = (\<lambda>language. Inl e)\<rparr>"

text \<open>The story of the spec's example, and a story whose only event is a named action.\<close>

definition booking_stories :: StoryGraph where
  "booking_stories =
     StoryGraph
       [StoryStep
          [UserUtteredEvent \<lparr>user_text = ''book a table'', intent_name = ''reserve''\<rparr>,
           ActionExecutedEvent \<lparr>action_name = ''utter_confirm'', e2e_text = Some ''Sure, done!''\<rparr>]]"

definition greeting_stories :: StoryGraph where
  "greeting_stories =
     StoryGraph [StoryStep [ActionExecutedEvent \<lparr>action_name = ''utter_greet'', e2e_text = None\<rparr>]]"

text \<open>An importer whose stories depend on the \<^verbatim>\<open>use_e2e\<close> argument.\<close>

definition e2e_sensitive_importer :: "int TrainingDataImporter" where
  "e2e_sensitive_importer =
     \<lparr>get_domain = Inr Domain_empty,
      get_stories = (\<lambda>args. if use_e2e args then Inr booking_stories else Inr greeting_stories),
      get_config = Inr None,
      get_nlu_data = (\<lambda>language. Inr (TrainingData []))\<rparr>"

text \<open>A caller that makes one \<^verbatim>\<open>get_stories\<close> call after another on the same object.\<close>

fun get_stories_repeatedly ::
  "'v E2EImporter \<Rightarrow> story_args list \<Rightarrow> (error + StoryGraph) list \<times> 'v E2EImporter" where
  "get_stories_repeatedly self [] = ([], self)"
| "get_stories_repeatedly self (args # rest) =
     (let (r, self') = E2EImporter_get_stories self args;
          (rs, self'') = get_stories_repeatedly self' rest
      in (r # rs, self''))"

section \<open>Properties of the building blocks\<close>

lemma first_raised_None:
  "first_raised aws order = None \<longleftrightarrow>
     (\<forall>i \<in> set order. i < length aws \<longrightarrow> (\<exists>x. aws ! i = Inr x))"
  by (induction order) (auto split: sum.splits)

lemma first_raised_Some:
  "first_raised aws order = Some e \<Longrightarrow> \<exists>j \<in> set order. j < length aws \<and> aws ! j = Inl e"
  by (induction order) (auto split: sum.splits if_splits)

lemma values_map_Inr:
  "List.map_filter (\<lambda>r. case r of Inl e \<Rightarrow> None | Inr x \<Rightarrow> Some x) (map Inr xs) = xs"
  by (induction xs) (simp_all add: List.map_filter_def)

text \<open>When every awaitable returns, \<open>gather\<close> returns all results, whatever the order.\<close>

lemma first_raised_map_Inr: "first_raised (map Inr xs) order = None"
  by (simp add: first_raised_None)

lemma gather_map_Inr: "gather finished (map Inr xs) = Inr xs"
  by (simp add: gather_def first_raised_map_Inr values_map_Inr)

lemma gather_Nil: "gather finished [] = Inr []"
  using gather_map_Inr [of finished "[]"] by simp

lemma gather_one: "gather finished [Inr x] = Inr [x]"
  using gather_map_Inr [of finished "[x]"] by simp

lemma gather_two: "gather finished [Inr x, Inr y] = Inr [x, y]"
  using gather_map_Inr [of finished "[x, y]"] by simp

text \<open>
  A failing awaitable makes \<open>gather\<close> fail with the exception of some failing awaitable,
  and with its own exception when it is the first to finish.
\<close>

lemma gather_failure:
  assumes "i < length aws" and "aws ! i = Inl e"
  shows "\<exists>j e'. j < length aws \<and> aws ! j = Inl e' \<and> gather finished aws = Inl e'"
proof -
  have "first_raised aws (finished @ [0..<length aws]) \<noteq> None"
    using assms by (auto simp: first_raised_None)
  then obtain e' where e': "first_raised aws (finished @ [0..<length aws]) = Some e'"
    by auto
  from first_raised_Some [OF this] obtain j where "j < length aws" "aws ! j = Inl e'"
    by blast
  with e' show ?thesis
    by (auto simp: gather_def)
qed

lemma gather_finishes_first:
  assumes "i < length aws" and "aws ! i = Inl e"
  shows "gather (i # finished) aws = Inl e"
  using assms by (simp add: gather_def)

text \<open>The two nested loops over the story graph visit the events of all steps in order.\<close>

lemma messages_loop:
  "foldl (\<lambda>acc story_step.
            foldl (\<lambda>msgs event.
                     case message_from_conversation_event event of
                       None \<Rightarrow> msgs
                     | Some message \<Rightarrow> msgs @ [message])
              acc (events story_step))
     acc0 steps
   = acc0 @ List.map_filter message_from_conversation_event (concat (map events steps))"
proof -
  have inner: "foldl (\<lambda>msgs event.
                     case message_from_conversation_event event of
                       None \<Rightarrow> msgs
                     | Some message \<Rightarrow> msgs @ [message]) acc evs
        = acc @ List.map_filter message_from_conversation_event evs" for acc evs
    by (induction evs arbitrary: acc) (auto simp: List.map_filter_def split: option.splits)
  show ?thesis
    by (induction steps arbitrary: acc0) (auto simp: inner List.map_filter_def)
qed

lemma action_names_loop:
  "set (foldl (\<lambda>names story_step.
                 names @ [action_name a. ActionExecutedEvent a \<leftarrow> events story_step,
                            truthy (e2e_text a)])
          acc steps)
   = set acc \<union> {action_name a | a step.
                  step \<in> set steps \<and> ActionExecutedEvent a \<in> set (events step) \<and> truthy (e2e_text a)}"
proof (induction steps arbitrary: acc)
  case Nil
  then show ?case by simp
next
  case (Cons s steps)
  have one: "set [action_name a. ActionExecutedEvent a \<leftarrow> events s, truthy (e2e_text a)]
     = {action_name a | a. ActionExecutedEvent a \<in> set (events s) \<and> truthy (e2e_text a)}"
    by (auto split: Event.splits)
  show ?case
    unfolding foldl_Cons Cons.IH set_append one by auto
qed

lemma gather_map_failure:
  assumes "i < length xs" and "f (xs ! i) = Inl e"
  shows "(\<exists>j e'. j < length xs \<and> f (xs ! j) = Inl e' \<and> gather finished (map f xs) = Inl e') \<and>
         gather (i # finished) (map f xs) = Inl e"
proof -
  from assms have i: "i < length (map f xs)" and e: "map f xs ! i = Inl e"
    by simp_all
  from gather_failure [OF i e, of finished]
  obtain j e' where "j < length (map f xs)" "map f xs ! j = Inl e'"
      "gather finished (map f xs) = Inl e'"
    by blast
  then have "j < length xs \<and> f (xs ! j) = Inl e' \<and> gather finished (map f xs) = Inl e'"
    by simp
  with gather_finishes_first [OF i e, of finished] show ?thesis
    by blast
qed

text \<open>The fold of the configurations gives every key the value of its last declaration.\<close>

lemma last_declared_fold:
  "foldl (\<lambda>merged other. merged ++ (case other of None \<Rightarrow> Map.empty | Some d \<Rightarrow> d)) init configs
   = init ++ last_declared (map (\<lambda>other. case other of None \<Rightarrow> Map.empty | Some d \<Rightarrow> d) configs)"
proof (induction configs arbitrary: init)
  case Nil
  show ?case by (simp add: fun_eq_iff map_add_def)
next
  case (Cons c configs)
  show ?case
    by (simp add: Cons.IH) (auto simp: fun_eq_iff map_add_def split: option.splits)
qed

lemma truthy_iff: "truthy t \<longleftrightarrow> t \<noteq> None \<and> t \<noteq> Some ''''"
  by (cases t) auto

subsection \<open>The story cache\<close>

lemma get_stories_populates:
  "E2EImporter_get_stories self args = (Inr stories, self') \<Longrightarrow> cached_stories self' = Some stories"
  by (auto simp: E2EImporter_get_stories_def Let_def split: option.splits sum.splits)

lemma get_stories_cached:
  "cached_stories self = Some stories \<Longrightarrow> E2EImporter_get_stories self args = (Inr stories, self)"
  by (simp add: E2EImporter_get_stories_def)

lemma get_stories_first:
  "cached_stories self = None \<Longrightarrow> E2EImporter_get_stories self args = (Inr stories, self') \<Longrightarrow>
     get_stories (importer self) args = Inr stories \<and>
     get_stories_calls self' = get_stories_calls self @ [args]"
  by (auto simp: E2EImporter_get_stories_def Let_def split: sum.splits)

lemma repeatedly_cached:
  "cached_stories self = Some stories \<Longrightarrow>
     get_stories_repeatedly self later = (replicate (length later) (Inr stories), self)"
  by (induction later) (simp_all add: get_stories_cached)

subsection \<open>What the E2EImporter derives from the stories\<close>

lemma get_domain_with_e2e_actions_ok:
  assumes "E2EImporter_get_stories self default_story_args = (Inr stories, self')"
  shows "get_domain_with_e2e_actions self =
           (Inr \<lparr>intents = {}, entities = {}, slots = {}, templates = {},
                 action_names = {action_name a | a step. step \<in> set (story_steps stories) \<and>
                    ActionExecutedEvent a \<in> set (events step) \<and>
                    e2e_text a \<noteq> None \<and> e2e_text a \<noteq> Some ''''},
                 form_names = {}\<rparr>, self')"
proof -
  have names:
    "set (remdups
       (foldl (\<lambda>names story_step.
                 names @ [action_name a. ActionExecutedEvent a \<leftarrow> events story_step,
                            truthy (e2e_text a)])
          [] (story_steps stories)))
     = {action_name a | a step. step \<in> set (story_steps stories) \<and>
          ActionExecutedEvent a \<in> set (events step) \<and>
          e2e_text a \<noteq> None \<and> e2e_text a \<noteq> Some ''''}"
    unfolding set_remdups action_names_loop by (simp add: truthy_iff)
  show ?thesis
    unfolding get_domain_with_e2e_actions_def assms Domain_init_def Let_def prod.case sum.case names
    by simp
qed

lemma additional_training_data_from_stories_ok:
  assumes "E2EImporter_get_stories self default_story_args = (Inr stories, self')"
  shows "additional_training_data_from_stories self =
           (Inr (TrainingData (List.map_filter message_from_conversation_event
                   (concat (map events (story_steps stories))))), self')"
  using assms by (simp add: additional_training_data_from_stories_def messages_loop)

text \<open>
  Without \<^verbatim>\<open>only_nlu\<close> the result holds the default-action examples, the wrapped
  importer's examples and the examples from the stories, in this order.
\<close>

lemma get_nlu_data_all:
  assumes "E2EImporter_get_stories self default_story_args = (Inr stories, self')"
    and "get_nlu_data (importer self) language = Inr nlu"
  shows "E2EImporter_get_nlu_data names finished self language False =
           (Inr (TrainingData
                  (training_examples (additional_training_data_from_default_actions names) @
                   training_examples nlu @
                   List.map_filter message_from_conversation_event
                     (concat (map events (story_steps stories))))), self')"
  using assms(2) additional_training_data_from_stories_ok [OF assms(1)]
  by (simp add: E2EImporter_get_nlu_data_def gather_two TrainingData_merge_def)

text \<open>With \<^verbatim>\<open>only_nlu\<close> the result is the wrapped importer's training data and nothing else.\<close>

lemma get_nlu_data_only_nlu:
  assumes "get_nlu_data (importer self) language = Inr nlu"
  shows "E2EImporter_get_nlu_data names finished self language True = (Inr nlu, self)"
  using assms by (simp add: E2EImporter_get_nlu_data_def gather_one TrainingData_merge_def)

lemma event_message_in:
  assumes "step \<in> set (story_steps stories)" and "event \<in> set (events step)"
    and "message_from_conversation_event event = Some m"
  shows "m \<in> set (List.map_filter message_from_conversation_event
                   (concat (map events (story_steps stories))))"
  using assms by (force simp: List.map_filter_def)

section \<open>NluDataImporter: the Core side is empty\<close>

text \<open>
  Claim C9. Whatever importer an \<^verbatim>\<open>NluDataImporter\<close> wraps and whatever the arguments,
  \<^verbatim>\<open>get_domain\<close> returns the empty domain, \<^verbatim>\<open>get_stories\<close> returns the empty story graph,
  and \<^verbatim>\<open>get_config\<close> is the outcome of the wrapped importer's \<^verbatim>\<open>get_config\<close>, the
  raised exception included.
\<close>

theorem NluDataImporter_skips_core:
  "NluDataImporter_get_domain (NluDataImporter imp) = Inr Domain_empty \<and>
   NluDataImporter_get_stories (NluDataImporter imp) args = Inr (StoryGraph []) \<and>
   NluDataImporter_get_config (NluDataImporter imp) = get_config imp"
  by (simp add: NluDataImporter_get_domain_def NluDataImporter_get_stories_def
      NluDataImporter_get_config_def)

section \<open>CombinedDataImporter: folding the children's results\<close>

text \<open>
  Claim C10. A \<^verbatim>\<open>CombinedDataImporter\<close> built from the empty list of importers returns the
  empty value of each type: the empty domain, the empty story graph, the empty training
  data and the empty configuration.
\<close>

theorem CombinedDataImporter_no_importers:
  "CombinedDataImporter_get_domain finished (CombinedDataImporter []) = Inr Domain_empty \<and>
   CombinedDataImporter_get_stories finished (CombinedDataImporter []) args
     = Inr (StoryGraph []) \<and>
   CombinedDataImporter_get_nlu_data finished (CombinedDataImporter []) language
     = Inr (TrainingData []) \<and>
   CombinedDataImporter_get_config finished (CombinedDataImporter []) = Inr Map.empty"
  by (simp add: CombinedDataImporter_get_domain_def CombinedDataImporter_get_stories_def
      CombinedDataImporter_get_nlu_data_def CombinedDataImporter_get_config_def gather_Nil)

text \<open>
  Claim C6. When every child returns its configuration, \<^verbatim>\<open>get_config\<close> of the
  \<^verbatim>\<open>CombinedDataImporter\<close> returns the union of the children's configurations taken left
  to right from the empty mapping: a key has the value of the last child that declares it
  (a child whose configuration is \<^verbatim>\<open>None\<close> declares nothing). Children producing
  \<^verbatim>\<open>{"a": 1}\<close> and then \<^verbatim>\<open>{"a": 2, "b": 3}\<close> give exactly \<^verbatim>\<open>{"a": 2, "b": 3}\<close>.
\<close>

theorem CombinedDataImporter_get_config_later_wins:
  "(map get_config (importers self) = map Inr configs \<longrightarrow>
      CombinedDataImporter_get_config finished self
        = Inr (last_declared
                 (map (\<lambda>other. case other of None \<Rightarrow> Map.empty | Some d \<Rightarrow> d) configs))) \<and>
   CombinedDataImporter_get_config finished
      (CombinedDataImporter
         [fixed_importer Domain_empty (StoryGraph []) (Some [''a'' \<mapsto> 1::int]) (TrainingData []),
          fixed_importer Domain_empty (StoryGraph []) (Some [''a'' \<mapsto> 2, ''b'' \<mapsto> 3])
            (TrainingData [])])
     = Inr [''a'' \<mapsto> 2, ''b'' \<mapsto> 3]"
proof (intro conjI impI)
  assume "map get_config (importers self) = map Inr configs"
  then show "CombinedDataImporter_get_config finished self
        = Inr (last_declared
                 (map (\<lambda>other. case other of None \<Rightarrow> Map.empty | Some d \<Rightarrow> d) configs))"
    by (simp add: CombinedDataImporter_get_config_def gather_map_Inr last_declared_fold)
next
  show "CombinedDataImporter_get_config finished
      (CombinedDataImporter
         [fixed_importer Domain_empty (StoryGraph []) (Some [''a'' \<mapsto> 1::int]) (TrainingData []),
          fixed_importer Domain_empty (StoryGraph []) (Some [''a'' \<mapsto> 2, ''b'' \<mapsto> 3])
            (TrainingData [])])
     = Inr [''a'' \<mapsto> 2, ''b'' \<mapsto> 3]"
    by (simp add: CombinedDataImporter_get_config_def fixed_importer_def gather_two)
qed

theorem CombinedDataImporter_get_config_later_wins_witness:
  "map get_config
     (importers (CombinedDataImporter
        [fixed_importer Domain_empty (StoryGraph []) (Some [''a'' \<mapsto> 1::int]) (TrainingData []),
         fixed_importer Domain_empty (StoryGraph []) None (TrainingData []),
         fixed_importer Domain_empty (StoryGraph []) (Some [''a'' \<mapsto> 2, ''b'' \<mapsto> 3])
           (TrainingData [])]))
     = map Inr [Some [''a'' \<mapsto> 1], None, Some [''a'' \<mapsto> 2, ''b'' \<mapsto> 3]] \<and>
   CombinedDataImporter_get_config [2, 0, 1]
     (CombinedDataImporter
        [fixed_importer Domain_empty (StoryGraph []) (Some [''a'' \<mapsto> 1::int]) (TrainingData []),
         fixed_importer Domain_empty (StoryGraph []) None (TrainingData []),
         fixed_importer Domain_empty (StoryGraph []) (Some [''a'' \<mapsto> 2, ''b'' \<mapsto> 3])
           (TrainingData [])])
     = Inr (last_declared [[''a'' \<mapsto> 1], Map.empty, [''a'' \<mapsto> 2, ''b'' \<mapsto> 3]]) \<and>
   last_declared [[''a'' \<mapsto> 1::int], Map.empty, [''a'' \<mapsto> 2, ''b'' \<mapsto> 3]] ''a'' = Some 2 \<and>
   last_declared [[''a'' \<mapsto> 1::int], Map.empty, [''a'' \<mapsto> 2, ''b'' \<mapsto> 3]] ''b'' = Some 3 \<and>
   last_declared [[''a'' \<mapsto> 1::int], Map.empty, [''a'' \<mapsto> 2, ''b'' \<mapsto> 3]] ''c'' = None"
proof -
  let ?self = "CombinedDataImporter
        [fixed_importer Domain_empty (StoryGraph []) (Some [''a'' \<mapsto> 1::int]) (TrainingData []),
         fixed_importer Domain_empty (StoryGraph []) None (TrainingData []),
         fixed_importer Domain_empty (StoryGraph []) (Some [''a'' \<mapsto> 2, ''b'' \<mapsto> 3])
           (TrainingData [])]"
  have children: "map get_config (importers ?self)
     = map Inr [Some [''a'' \<mapsto> 1], None, Some [''a'' \<mapsto> 2, ''b'' \<mapsto> 3]]"
    by (simp add: fixed_importer_def)
  from CombinedDataImporter_get_config_later_wins
         [of ?self "[Some [''a'' \<mapsto> 1], None, Some [''a'' \<mapsto> 2, ''b'' \<mapsto> 3]]" "[2, 0, 1]",
          THEN conjunct1, THEN mp, OF children]
  have "CombinedDataImporter_get_config [2, 0, 1] ?self
     = Inr (last_declared [[''a'' \<mapsto> 1], Map.empty, [''a'' \<mapsto> 2, ''b'' \<mapsto> 3]])"
    by simp
  with children show ?thesis by simp
qed

text \<open>
  Claim C7. If the call of some child fails, each of the four operations of the
  \<^verbatim>\<open>CombinedDataImporter\<close> fails as a whole, in whatever order the children finish: it
  returns no merged value but the unchanged exception of a child whose call failed (child
  \<open>j\<close> below). That is the exception of child \<open>i\<close> itself whenever child \<open>i\<close> is the first
  to finish, and hence also when it is the only child that fails.
\<close>

theorem CombinedDataImporter_failure_propagates:
  assumes "i < length (importers self)"
  shows
    "(get_domain (importers self ! i) = Inl e \<longrightarrow>
        (\<exists>j e'. j < length (importers self) \<and> get_domain (importers self ! j) = Inl e' \<and>
           CombinedDataImporter_get_domain finished self = Inl e') \<and>
        CombinedDataImporter_get_domain (i # finished) self = Inl e) \<and>
     (get_stories (importers self ! i) args = Inl e \<longrightarrow>
        (\<exists>j e'. j < length (importers self) \<and> get_stories (importers self ! j) args = Inl e' \<and>
           CombinedDataImporter_get_stories finished self args = Inl e') \<and>
        CombinedDataImporter_get_stories (i # finished) self args = Inl e) \<and>
     (get_config (importers self ! i) = Inl e \<longrightarrow>
        (\<exists>j e'. j < length (importers self) \<and> get_config (importers self ! j) = Inl e' \<and>
           CombinedDataImporter_get_config finished self = Inl e') \<and>
        CombinedDataImporter_get_config (i # finished) self = Inl e) \<and>
     (get_nlu_data (importers self ! i) language = Inl e \<longrightarrow>
        (\<exists>j e'. j < length (importers self) \<and>
           get_nlu_data (importers self ! j) language = Inl e' \<and>
           CombinedDataImporter_get_nlu_data finished self language = Inl e') \<and>
        CombinedDataImporter_get_nlu_data (i # finished) self language = Inl e)"
proof (intro conjI impI)
  assume "get_domain (importers self ! i) = Inl e"
  note f = gather_map_failure [of i "importers self" get_domain, OF assms this, of finished]
  from f [THEN conjunct1]
  show "\<exists>j e'. j < length (importers self) \<and> get_domain (importers self ! j) = Inl e' \<and>
           CombinedDataImporter_get_domain finished self = Inl e'"
    by (fastforce simp: CombinedDataImporter_get_domain_def)
  from f [THEN conjunct2]
  show "CombinedDataImporter_get_domain (i # finished) self = Inl e"
    by (simp add: CombinedDataImporter_get_domain_def)
next
  assume "get_stories (importers self ! i) args = Inl e"
  note f = gather_map_failure
      [of i "importers self" "\<lambda>importer. get_stories importer args", OF assms this, of finished]
  from f [THEN conjunct1]
  show "\<exists>j e'. j < length (importers self) \<and> get_stories (importers self ! j) args = Inl e' \<and>
           CombinedDataImporter_get_stories finished self args = Inl e'"
    by (fastforce simp: CombinedDataImporter_get_stories_def)
  from f [THEN conjunct2]
  show "CombinedDataImporter_get_stories (i # finished) self args = Inl e"
    by (simp add: CombinedDataImporter_get_stories_def)
next
  assume "get_config (importers self ! i) = Inl e"
  note f = gather_map_failure [of i "importers self" get_config, OF assms this, of finished]
  from f [THEN conjunct1]
  show "\<exists>j e'. j < length (importers self) \<and> get_config (importers self ! j) = Inl e' \<and>
           CombinedDataImporter_get_config finished self = Inl e'"
    by (fastforce simp: CombinedDataImporter_get_config_def)
  from f [THEN conjunct2]
  show "CombinedDataImporter_get_config (i # finished) self = Inl e"
    by (simp add: CombinedDataImporter_get_config_def)
next
  assume "get_nlu_data (importers self ! i) language = Inl e"
  note f = gather_map_failure
      [of i "importers self" "\<lambda>importer. get_nlu_data importer language", OF assms this,
       of finished]
  from f [THEN conjunct1]
  show "\<exists>j e'. j < length (importers self) \<and>
           get_nlu_data (importers self ! j) language = Inl e' \<and>
           CombinedDataImporter_get_nlu_data finished self language = Inl e'"
    by (fastforce simp: CombinedDataImporter_get_nlu_data_def)
  from f [THEN conjunct2]
  show "CombinedDataImporter_get_nlu_data (i # finished) self language = Inl e"
    by (simp add: CombinedDataImporter_get_nlu_data_def)
qed

theorem CombinedDataImporter_failure_propagates_witness:
  "1 < length (importers (CombinedDataImporter
         [failing_importer (Exception ''slow''),
          failing_importer NotImplementedError,
          fixed_importer Domain_empty booking_stories (None :: int Dict option) (TrainingData [])])) \<and>
   get_domain (importers (CombinedDataImporter
         [failing_importer (Exception ''slow''),
          failing_importer NotImplementedError,
          fixed_importer Domain_empty booking_stories (None :: int Dict option) (TrainingData [])])
      ! 1) = Inl NotImplementedError \<and>
   CombinedDataImporter_get_domain [1, 2, 0] (CombinedDataImporter
         [failing_importer (Exception ''slow''),
          failing_importer NotImplementedError,
          fixed_importer Domain_empty booking_stories (None :: int Dict option) (TrainingData [])])
     = Inl NotImplementedError \<and>
   CombinedDataImporter_get_stories [1, 2, 0] (CombinedDataImporter
         [failing_importer (Exception ''slow''),
          failing_importer NotImplementedError,
          fixed_importer Domain_empty booking_stories (None :: int Dict option) (TrainingData [])])
      default_story_args = Inl NotImplementedError \<and>
   CombinedDataImporter_get_config [1, 2, 0] (CombinedDataImporter
         [failing_importer (Exception ''slow''),
          failing_importer NotImplementedError,
          fixed_importer Domain_empty booking_stories (None :: int Dict option) (TrainingData [])])
     = Inl NotImplementedError \<and>
   CombinedDataImporter_get_nlu_data [1, 2, 0] (CombinedDataImporter
         [failing_importer (Exception ''slow''),
          failing_importer NotImplementedError,
          fixed_importer Domain_empty booking_stories (None :: int Dict option) (TrainingData [])])
      None = Inl NotImplementedError \<and>
   CombinedDataImporter_get_domain [] (CombinedDataImporter
         [failing_importer (Exception ''slow''),
          failing_importer NotImplementedError,
          fixed_importer Domain_empty booking_stories (None :: int Dict option) (TrainingData [])])
     = Inl (Exception ''slow'')"
proof -
  let ?self = "CombinedDataImporter
         [failing_importer (Exception ''slow''),
          failing_importer NotImplementedError,
          fixed_importer Domain_empty booking_stories (None :: int Dict option) (TrainingData [])]"
  have i: "1 < length (importers ?self)"
    by simp
  have child: "get_domain (importers ?self ! 1) = Inl NotImplementedError"
      "get_stories (importers ?self ! 1) default_story_args = Inl NotImplementedError"
      "get_config (importers ?self ! 1) = Inl NotImplementedError"
      "get_nlu_data (importers ?self ! 1) None = Inl NotImplementedError"
    by (simp_all add: failing_importer_def)
  note all = CombinedDataImporter_failure_propagates
      [OF i, of NotImplementedError "[2, 0]" default_story_args None]
  from all child have first:
      "CombinedDataImporter_get_domain [1, 2, 0] ?self = Inl NotImplementedError"
      "CombinedDataImporter_get_stories [1, 2, 0] ?self default_story_args = Inl NotImplementedError"
      "CombinedDataImporter_get_config [1, 2, 0] ?self = Inl NotImplementedError"
      "CombinedDataImporter_get_nlu_data [1, 2, 0] ?self None = Inl NotImplementedError"
    by simp_all
  have argument_order: "CombinedDataImporter_get_domain [] ?self = Inl (Exception ''slow'')"
    by (simp add: CombinedDataImporter_get_domain_def gather_def failing_importer_def)
  show ?thesis
    by (rule conjI [OF i conjI [OF child(1) conjI [OF first(1) conjI [OF first(2)
          conjI [OF first(3) conjI [OF first(4) argument_order]]]]]])
qed

section \<open>E2EImporter: the story cache\<close>

text \<open>
  Claim C3. Once a \<^verbatim>\<open>get_stories\<close> call on an \<^verbatim>\<open>E2EImporter\<close> has returned a story graph,
  every later call returns that same graph whatever its arguments, and leaves the object as
  it is: the cache keeps the graph and no further \<^verbatim>\<open>get_stories\<close> call reaches the wrapped
  importer (the record of those calls is part of the object). This holds for any number of
  later calls. If the cache was empty before the first call, the graph is the one the
  wrapped importer returned for the arguments of that call, fetched by a single call.
\<close>

theorem E2EImporter_get_stories_fetches_once:
  assumes "E2EImporter_get_stories self args = (Inr stories, self')"
  shows "E2EImporter_get_stories self' args' = (Inr stories, self') \<and>
         get_stories_repeatedly self' later = (replicate (length later) (Inr stories), self') \<and>
         (cached_stories self = None \<longrightarrow>
            get_stories (importer self) args = Inr stories \<and>
            get_stories_calls self' = get_stories_calls self @ [args])"
  using assms get_stories_populates [OF assms]
  by (simp add: get_stories_cached repeatedly_cached get_stories_first)

theorem E2EImporter_get_stories_fetches_once_witness:
  "E2EImporter_get_stories (E2EImporter_init e2e_sensitive_importer)
      (default_story_args\<lparr>use_e2e := True\<rparr>)
     = (Inr booking_stories,
        \<lparr>importer = e2e_sensitive_importer, cached_stories = Some booking_stories,
         get_stories_calls = [default_story_args\<lparr>use_e2e := True\<rparr>]\<rparr>) \<and>
   get_stories e2e_sensitive_importer default_story_args = Inr greeting_stories \<and>
   E2EImporter_get_stories
      \<lparr>importer = e2e_sensitive_importer, cached_stories = Some booking_stories,
       get_stories_calls = [default_story_args\<lparr>use_e2e := True\<rparr>]\<rparr>
      default_story_args
     = (Inr booking_stories,
        \<lparr>importer = e2e_sensitive_importer, cached_stories = Some booking_stories,
         get_stories_calls = [default_story_args\<lparr>use_e2e := True\<rparr>]\<rparr>)"
proof -
  have first: "E2EImporter_get_stories (E2EImporter_init e2e_sensitive_importer)
      (default_story_args\<lparr>use_e2e := True\<rparr>)
     = (Inr booking_stories,
        \<lparr>importer = e2e_sensitive_importer, cached_stories = Some booking_stories,
         get_stories_calls = [default_story_args\<lparr>use_e2e := True\<rparr>]\<rparr>)"
    by (simp add: E2EImporter_get_stories_def E2EImporter_init_def e2e_sensitive_importer_def
        default_story_args_def)
  have other: "get_stories e2e_sensitive_importer default_story_args = Inr greeting_stories"
    by (simp add: e2e_sensitive_importer_def default_story_args_def)
  show ?thesis
    using first other
      E2EImporter_get_stories_fetches_once [OF first, of default_story_args "[]"]
    by simp
qed

section \<open>E2EImporter: actions of end-to-end stories in the domain\<close>

text \<open>
  Claim C4. When the wrapped importer returns its domain and the stories are available
  (cached, or fetched with the default arguments), \<^verbatim>\<open>get_domain\<close> of the \<^verbatim>\<open>E2EImporter\<close>
  returns the wrapped domain merged with a derived domain that declares nothing but actions:
  the set of the names of the action events, in any step of the story graph, whose
  end-to-end text is neither absent nor empty. So the name of every such action is among
  the actions of the returned domain, whether or not the wrapped domain declares it.
\<close>

theorem E2EImporter_get_domain_adds_e2e_actions:
  assumes "get_domain (importer self) = Inr original"
    and "E2EImporter_get_stories self default_story_args = (Inr stories, self')"
  shows "E2EImporter_get_domain finished self =
           (Inr (Domain_merge original
                   \<lparr>intents = {}, entities = {}, slots = {}, templates = {},
                    action_names = {action_name a | a step. step \<in> set (story_steps stories) \<and>
                       ActionExecutedEvent a \<in> set (events step) \<and>
                       e2e_text a \<noteq> None \<and> e2e_text a \<noteq> Some ''''},
                    form_names = {}\<rparr>), self') \<and>
         (\<exists>d. fst (E2EImporter_get_domain finished self) = Inr d \<and>
            (\<forall>step a t. step \<in> set (story_steps stories) \<and>
                ActionExecutedEvent a \<in> set (events step) \<and> e2e_text a = Some t \<and> t \<noteq> ''''
                \<longrightarrow> action_name a \<in> action_names d))"
proof -
  let ?e2e = "\<lparr>intents = {}, entities = {}, slots = {}, templates = {},
                    action_names = {action_name a | a step. step \<in> set (story_steps stories) \<and>
                       ActionExecutedEvent a \<in> set (events step) \<and>
                       e2e_text a \<noteq> None \<and> e2e_text a \<noteq> Some ''''},
                    form_names = {}\<rparr>"
  have *: "E2EImporter_get_domain finished self = (Inr (Domain_merge original ?e2e), self')"
    using assms(1) get_domain_with_e2e_actions_ok [OF assms(2)]
    by (simp add: E2EImporter_get_domain_def gather_two)
  have "action_name a \<in> action_names (Domain_merge original ?e2e)"
    if "step \<in> set (story_steps stories)" "ActionExecutedEvent a \<in> set (events step)"
       "e2e_text a = Some t" "t \<noteq> ''''" for step a t
  proof -
    from that have "action_name a \<in> action_names ?e2e"
      by (simp del: not_None_eq) (metis option.distinct(1) option.inject)
    then show ?thesis by (simp add: Domain_merge_def)
  qed
  with * show ?thesis by simp blast
qed

theorem E2EImporter_get_domain_adds_e2e_actions_witness:
  "get_domain (importer (E2EImporter_init
       (fixed_importer Domain_empty booking_stories (None :: int Dict option) (TrainingData []))))
     = Inr Domain_empty \<and>
   ''utter_confirm'' \<notin> action_names Domain_empty \<and>
   (\<exists>d. fst (E2EImporter_get_domain [1, 0] (E2EImporter_init
       (fixed_importer Domain_empty booking_stories (None :: int Dict option) (TrainingData []))))
        = Inr d \<and> ''utter_confirm'' \<in> action_names d)"
proof -
  let ?imp = "fixed_importer Domain_empty booking_stories (None :: int Dict option) (TrainingData [])"
  let ?self = "E2EImporter_init ?imp"
  let ?after = "\<lparr>importer = ?imp, cached_stories = Some booking_stories,
                 get_stories_calls = [default_story_args]\<rparr>"
  have d: "get_domain (importer ?self) = Inr Domain_empty"
    by (simp add: E2EImporter_init_def fixed_importer_def)
  have s: "E2EImporter_get_stories ?self default_story_args = (Inr booking_stories, ?after)"
    by (simp add: E2EImporter_get_stories_def E2EImporter_init_def fixed_importer_def)
  have n: "''utter_confirm'' \<notin> action_names Domain_empty"
    by (simp add: Domain_empty_def Domain_init_def)
  from E2EImporter_get_domain_adds_e2e_actions [OF d s, of "[1, 0]"] obtain d where
    "fst (E2EImporter_get_domain [1, 0] ?self) = Inr d"
    "\<forall>step a t. step \<in> set (story_steps booking_stories) \<and>
                ActionExecutedEvent a \<in> set (events step) \<and> e2e_text a = Some t \<and> t \<noteq> ''''
                \<longrightarrow> action_name a \<in> action_names d"
    by blast
  then have "fst (E2EImporter_get_domain [1, 0] ?self) = Inr d \<and> ''utter_confirm'' \<in> action_names d"
    by (fastforce simp: booking_stories_def)
  with d n show ?thesis by blast
qed

section \<open>E2EImporter: training data from the stories\<close>

text \<open>
  Claim C5. Let the story graph have a step with the user utterance "book a table" of
  intent "reserve" and the action "utter_confirm" with the end-to-end text "Sure, done!",
  and let the wrapped importer return its NLU data. Then \<^verbatim>\<open>get_nlu_data\<close> without
  \<^verbatim>\<open>only_nlu\<close> returns training data that holds the message "book a table" carrying the
  intent "reserve", and the message with text "Sure, done!" whose action name is
  "utter_confirm" and whose action text is "Sure, done!" again.
\<close>

theorem E2EImporter_get_nlu_data_booking_example:
  assumes "E2EImporter_get_stories self default_story_args = (Inr stories, self')"
    and "get_nlu_data (importer self) language = Inr nlu"
    and "step \<in> set (story_steps stories)"
    and "UserUtteredEvent \<lparr>user_text = ''book a table'', intent_name = ''reserve''\<rparr>
           \<in> set (events step)"
    and "ActionExecutedEvent \<lparr>action_name = ''utter_confirm'', e2e_text = Some ''Sure, done!''\<rparr>
           \<in> set (events step)"
  shows "\<exists>td. E2EImporter_get_nlu_data names finished self language False = (Inr td, self') \<and>
           \<lparr>message_text = ''book a table'', data = [MESSAGE_INTENT_NAME \<mapsto> ''reserve'']\<rparr>
             \<in> set (training_examples td) \<and>
           \<lparr>message_text = ''Sure, done!'',
            data = [MESSAGE_ACTION_NAME \<mapsto> ''utter_confirm'', ACTION_TEXT \<mapsto> ''Sure, done!'']\<rparr>
             \<in> set (training_examples td)"
proof -
  have u: "message_from_conversation_event
             (UserUtteredEvent \<lparr>user_text = ''book a table'', intent_name = ''reserve''\<rparr>)
           = Some \<lparr>message_text = ''book a table'', data = [MESSAGE_INTENT_NAME \<mapsto> ''reserve'']\<rparr>"
    by (simp add: message_from_conversation_event_def messages_from_user_utterance_def)
  have a: "message_from_conversation_event
             (ActionExecutedEvent \<lparr>action_name = ''utter_confirm'', e2e_text = Some ''Sure, done!''\<rparr>)
           = Some \<lparr>message_text = ''Sure, done!'',
                   data = [MESSAGE_ACTION_NAME \<mapsto> ''utter_confirm'', ACTION_TEXT \<mapsto> ''Sure, done!'']\<rparr>"
    by (simp add: message_from_conversation_event_def messages_from_action_def)
  show ?thesis
    using get_nlu_data_all [OF assms(1,2), of names finished]
      event_message_in [OF assms(3,4) u] event_message_in [OF assms(3,5) a]
    by simp
qed

theorem E2EImporter_get_nlu_data_booking_example_witness:
  "\<exists>td self'.
     E2EImporter_get_stories
       (E2EImporter_init
          (fixed_importer Domain_empty booking_stories (None :: int Dict option) (TrainingData [])))
       default_story_args = (Inr booking_stories, self') \<and>
     E2EImporter_get_nlu_data [''action_listen''] [1, 0]
       (E2EImporter_init
          (fixed_importer Domain_empty booking_stories (None :: int Dict option) (TrainingData [])))
       (Some ''en'') False = (Inr td, self') \<and>
     \<lparr>message_text = ''book a table'', data = [MESSAGE_INTENT_NAME \<mapsto> ''reserve'']\<rparr>
       \<in> set (training_examples td) \<and>
     \<lparr>message_text = ''Sure, done!'',
      data = [MESSAGE_ACTION_NAME \<mapsto> ''utter_confirm'', ACTION_TEXT \<mapsto> ''Sure, done!'']\<rparr>
       \<in> set (training_examples td)"
proof -
  let ?imp = "fixed_importer Domain_empty booking_stories (None :: int Dict option) (TrainingData [])"
  let ?self = "E2EImporter_init ?imp"
  let ?after = "\<lparr>importer = ?imp, cached_stories = Some booking_stories,
                 get_stories_calls = [default_story_args]\<rparr>"
  let ?step = "StoryStep
          [UserUtteredEvent \<lparr>user_text = ''book a table'', intent_name = ''reserve''\<rparr>,
           ActionExecutedEvent \<lparr>action_name = ''utter_confirm'', e2e_text = Some ''Sure, done!''\<rparr>]"
  have s: "E2EImporter_get_stories ?self default_story_args = (Inr booking_stories, ?after)"
    by (simp add: E2EImporter_get_stories_def E2EImporter_init_def fixed_importer_def)
  have n: "get_nlu_data (importer ?self) (Some ''en'') = Inr (TrainingData [])"
    by (simp add: E2EImporter_init_def fixed_importer_def)
  have step: "?step \<in> set (story_steps booking_stories)"
    by (simp add: booking_stories_def)
  have u: "UserUtteredEvent \<lparr>user_text = ''book a table'', intent_name = ''reserve''\<rparr>
             \<in> set (events ?step)"
    by simp
  have a: "ActionExecutedEvent \<lparr>action_name = ''utter_confirm'', e2e_text = Some ''Sure, done!''\<rparr>
             \<in> set (events ?step)"
    by simp
  from E2EImporter_get_nlu_data_booking_example [OF s n step u a, of "[''action_listen'']" "[1, 0]"] s
  show ?thesis by blast
qed

text \<open>
  Claim C2, as stated, fails: an action event without end-to-end text does contribute a
  message. For the story graph whose only event is the action "utter_greet" without
  end-to-end text, no default action and no NLU data of the wrapped importer,
  \<^verbatim>\<open>get_nlu_data\<close> without \<^verbatim>\<open>only_nlu\<close> returns one message, not none.
\<close>

theorem action_without_e2e_text_yields_message:
  "story_steps greeting_stories
     = [StoryStep [ActionExecutedEvent \<lparr>action_name = ''utter_greet'', e2e_text = None\<rparr>]] \<and>
   fst (E2EImporter_get_nlu_data [] []
          (E2EImporter_init
             (fixed_importer Domain_empty greeting_stories (None :: int Dict option) (TrainingData [])))
          None False)
     = Inr (TrainingData
              [\<lparr>message_text = '''',
                data = [MESSAGE_ACTION_NAME \<mapsto> ''utter_greet'', ACTION_TEXT \<mapsto> '''']\<rparr>]) \<and>
   fst (E2EImporter_get_nlu_data [] []
          (E2EImporter_init
             (fixed_importer Domain_empty greeting_stories (None :: int Dict option) (TrainingData [])))
          None False)
     \<noteq> Inr (TrainingData [])"
  by (simp add: E2EImporter_get_nlu_data_def additional_training_data_from_stories_def
      E2EImporter_get_stories_def E2EImporter_init_def fixed_importer_def greeting_stories_def
      additional_training_data_from_default_actions_def TrainingData_merge_def
      message_from_conversation_event_def messages_from_action_def gather_two)

text \<open>
  Claim C2, amended. In the story-derived training data computed by \<^verbatim>\<open>get_nlu_data\<close>
  without \<^verbatim>\<open>only_nlu\<close>, an action event whose end-to-end text is absent or empty
  contributes exactly one message: its text is empty, its action-name attribute is the
  action name of the event and its action-text attribute is the empty string.

  The theorem states this on the results themselves. The story-derived training data is the
  concatenation, in story order, of what each event contributes, written out for each kind
  of event: one message for an action event, whose text and action text are the end-to-end
  text, or empty when there is none. So the message of an action event without end-to-end
  text is among the story-derived examples, and \<^verbatim>\<open>get_nlu_data\<close> returns these examples
  after the default-action examples and the examples of the wrapped importer.
\<close>

theorem action_without_e2e_text_contributes_empty_text:
  assumes "E2EImporter_get_stories self default_story_args = (Inr stories, self')"
  shows "\<exists>td. additional_training_data_from_stories self = (Inr td, self') \<and>
           training_examples td =
             concat (map (\<lambda>event. case event of
                             UserUtteredEvent u \<Rightarrow>
                               [\<lparr>message_text = user_text u,
                                 data = [MESSAGE_INTENT_NAME \<mapsto> intent_name u]\<rparr>]
                           | ActionExecutedEvent a \<Rightarrow>
                               [\<lparr>message_text = (case e2e_text a of None \<Rightarrow> '''' | Some t \<Rightarrow> t),
                                 data = [MESSAGE_ACTION_NAME \<mapsto> action_name a,
                                         ACTION_TEXT \<mapsto>
                                           (case e2e_text a of None \<Rightarrow> '''' | Some t \<Rightarrow> t)]\<rparr>]
                           | OtherEvent x \<Rightarrow> [])
                       (concat (map events (story_steps stories)))) \<and>
           (\<forall>step a. step \<in> set (story_steps stories) \<and>
                ActionExecutedEvent a \<in> set (events step) \<and>
                (e2e_text a = None \<or> e2e_text a = Some '''') \<longrightarrow>
              \<lparr>message_text = '''',
               data = [MESSAGE_ACTION_NAME \<mapsto> action_name a, ACTION_TEXT \<mapsto> '''']\<rparr>
                \<in> set (training_examples td)) \<and>
           (\<forall>nlu. get_nlu_data (importer self) language = Inr nlu \<longrightarrow>
              E2EImporter_get_nlu_data names finished self language False =
                (Inr (TrainingData
                        (training_examples (additional_training_data_from_default_actions names) @
                         training_examples nlu @ training_examples td)),
                 self'))"
proof -
  let ?contribution = "\<lambda>event. case event of
                             UserUtteredEvent u \<Rightarrow>
                               [\<lparr>message_text = user_text u,
                                 data = [MESSAGE_INTENT_NAME \<mapsto> intent_name u]\<rparr>]
                           | ActionExecutedEvent a \<Rightarrow>
                               [\<lparr>message_text = (case e2e_text a of None \<Rightarrow> '''' | Some t \<Rightarrow> t),
                                 data = [MESSAGE_ACTION_NAME \<mapsto> action_name a,
                                         ACTION_TEXT \<mapsto>
                                           (case e2e_text a of None \<Rightarrow> '''' | Some t \<Rightarrow> t)]\<rparr>]
                           | OtherEvent x \<Rightarrow> []"
  let ?td = "TrainingData (List.map_filter message_from_conversation_event
                   (concat (map events (story_steps stories))))"
  have or_empty: "or_empty t = (case t of None \<Rightarrow> '''' | Some t \<Rightarrow> t)" for t
    by (cases t) simp_all
  have shape: "List.map_filter message_from_conversation_event evs
                 = concat (map ?contribution evs)" for evs
    by (induction evs)
      (simp_all add: List.map_filter_def message_from_conversation_event_def
        messages_from_user_utterance_def messages_from_action_def or_empty split: Event.splits)
  have derived: "additional_training_data_from_stories self = (Inr ?td, self')"
    by (rule additional_training_data_from_stories_ok [OF assms])
  have examples: "training_examples ?td
                    = concat (map ?contribution (concat (map events (story_steps stories))))"
    by (simp add: shape)
  have member: "\<lparr>message_text = '''',
               data = [MESSAGE_ACTION_NAME \<mapsto> action_name a, ACTION_TEXT \<mapsto> '''']\<rparr>
                \<in> set (training_examples ?td)"
    if "step \<in> set (story_steps stories) \<and>
        ActionExecutedEvent a \<in> set (events step) \<and>
        (e2e_text a = None \<or> e2e_text a = Some '''')" for step a
  proof -
    from that have m: "message_from_conversation_event (ActionExecutedEvent a) =
              Some \<lparr>message_text = '''',
                    data = [MESSAGE_ACTION_NAME \<mapsto> action_name a, ACTION_TEXT \<mapsto> '''']\<rparr>"
      by (auto simp: message_from_conversation_event_def messages_from_action_def)
    from that have "step \<in> set (story_steps stories)"
        and "ActionExecutedEvent a \<in> set (events step)"
      by simp_all
    from event_message_in [OF this m] show ?thesis
      by simp
  qed
  have all: "E2EImporter_get_nlu_data names finished self language False =
                (Inr (TrainingData
                        (training_examples (additional_training_data_from_default_actions names) @
                         training_examples nlu @ training_examples ?td)),
                 self')"
    if "get_nlu_data (importer self) language = Inr nlu" for nlu
    using get_nlu_data_all [OF assms that, of names finished] by simp
  show ?thesis
    apply (rule exI [of _ ?td])
    apply (intro conjI allI impI)
       apply (rule derived)
      apply (rule examples)
     apply (erule member)
    apply (erule all)
    done
qed

theorem action_without_e2e_text_contributes_empty_text_witness:
  "\<exists>self'.
     E2EImporter_get_stories
       (E2EImporter_init
          (fixed_importer Domain_empty
             (StoryGraph
                [StoryStep
                   [OtherEvent ''slot'',
                    ActionExecutedEvent \<lparr>action_name = ''utter_greet'', e2e_text = Some ''''\<rparr>]])
             (None :: int Dict option) (TrainingData [])))
       default_story_args
       = (Inr (StoryGraph
                [StoryStep
                   [OtherEvent ''slot'',
                    ActionExecutedEvent \<lparr>action_name = ''utter_greet'', e2e_text = Some ''''\<rparr>]]),
          self') \<and>
     additional_training_data_from_stories
       (E2EImporter_init
          (fixed_importer Domain_empty
             (StoryGraph
                [StoryStep
                   [OtherEvent ''slot'',
                    ActionExecutedEvent \<lparr>action_name = ''utter_greet'', e2e_text = Some ''''\<rparr>]])
             (None :: int Dict option) (TrainingData [])))
       = (Inr (TrainingData
                 [\<lparr>message_text = '''',
                   data = [MESSAGE_ACTION_NAME \<mapsto> ''utter_greet'', ACTION_TEXT \<mapsto> '''']\<rparr>]),
          self') \<and>
     get_nlu_data
       (importer
          (E2EImporter_init
             (fixed_importer Domain_empty
                (StoryGraph
                   [StoryStep
                      [OtherEvent ''slot'',
                       ActionExecutedEvent \<lparr>action_name = ''utter_greet'', e2e_text = Some ''''\<rparr>]])
                (None :: int Dict option) (TrainingData []))))
       None = Inr (TrainingData []) \<and>
     E2EImporter_get_nlu_data [] [1, 0]
       (E2EImporter_init
          (fixed_importer Domain_empty
             (StoryGraph
                [StoryStep
                   [OtherEvent ''slot'',
                    ActionExecutedEvent \<lparr>action_name = ''utter_greet'', e2e_text = Some ''''\<rparr>]])
             (None :: int Dict option) (TrainingData [])))
       None False
       = (Inr (TrainingData
                 [\<lparr>message_text = '''',
                   data = [MESSAGE_ACTION_NAME \<mapsto> ''utter_greet'', ACTION_TEXT \<mapsto> '''']\<rparr>]),
          self')"
proof -
  let ?action = "\<lparr>action_name = ''utter_greet'', e2e_text = Some ''''\<rparr>"
  let ?message = "\<lparr>message_text = '''',
                   data = [MESSAGE_ACTION_NAME \<mapsto> ''utter_greet'', ACTION_TEXT \<mapsto> '''']\<rparr>"
  let ?step = "StoryStep [OtherEvent ''slot'', ActionExecutedEvent ?action]"
  let ?stories = "StoryGraph [?step]"
  let ?imp = "fixed_importer Domain_empty ?stories (None :: int Dict option) (TrainingData [])"
  let ?self = "E2EImporter_init ?imp"
  let ?after = "\<lparr>importer = ?imp, cached_stories = Some ?stories,
                 get_stories_calls = [default_story_args]\<rparr>"
  have s: "E2EImporter_get_stories ?self default_story_args = (Inr ?stories, ?after)"
    by (simp add: E2EImporter_get_stories_def E2EImporter_init_def fixed_importer_def)
  have n: "get_nlu_data (importer ?self) None = Inr (TrainingData [])"
    by (simp add: E2EImporter_init_def fixed_importer_def)
  from action_without_e2e_text_contributes_empty_text [OF s, of None "[]" "[1, 0]"]
  obtain td where td: "additional_training_data_from_stories ?self = (Inr td, ?after)"
      "training_examples td = [?message]"
      "\<forall>nlu. get_nlu_data (importer ?self) None = Inr nlu \<longrightarrow>
              E2EImporter_get_nlu_data [] [1, 0] ?self None False =
                (Inr (TrainingData
                        (training_examples (additional_training_data_from_default_actions []) @
                         training_examples nlu @ training_examples td)),
                 ?after)"
    by auto
  from td(2) have "td = TrainingData [?message]"
    by (cases td) simp
  with td(1) have derived:
    "additional_training_data_from_stories ?self = (Inr (TrainingData [?message]), ?after)"
    by simp
  from td(3) [rule_format, OF n] td(2)
  have "E2EImporter_get_nlu_data [] [1, 0] ?self None False
          = (Inr (TrainingData [?message]), ?after)"
    by (simp add: additional_training_data_from_default_actions_def)
  with s derived n show ?thesis
    by (intro exI [of _ ?after] conjI)
qed

section \<open>E2EImporter: which attributes a synthesized message carries\<close>

lemma map_filter_in:
  "m \<in> set (List.map_filter f xs) \<Longrightarrow> \<exists>x \<in> set xs. f x = Some m"
  by (auto simp: List.map_filter_def)

text \<open>
  Claim C8, as stated, fails for an action event without end-to-end text: its message
  carries the action-text attribute as well, with the empty string as value, although no
  end-to-end text is available. The story graph whose only event is the action
  "utter_greet" without end-to-end text gives such a message.
\<close>

theorem action_message_always_has_action_text:
  "fst (additional_training_data_from_stories
          (E2EImporter_init
             (fixed_importer Domain_empty greeting_stories (None :: int Dict option) (TrainingData []))))
     = Inr (TrainingData [messages_from_action \<lparr>action_name = ''utter_greet'', e2e_text = None\<rparr>]) \<and>
   dom (data (messages_from_action \<lparr>action_name = ''utter_greet'', e2e_text = None\<rparr>))
     = {MESSAGE_ACTION_NAME, ACTION_TEXT} \<and>
   data (messages_from_action \<lparr>action_name = ''utter_greet'', e2e_text = None\<rparr>) ACTION_TEXT
     = Some ''''"
  by (simp add: additional_training_data_from_stories_def
      E2EImporter_get_stories_def E2EImporter_init_def fixed_importer_def greeting_stories_def
      message_from_conversation_event_def messages_from_action_def insert_commute)

text \<open>
  Claim C8, amended. Every message the \<^verbatim>\<open>E2EImporter\<close> synthesizes carries an intent
  label or an action name, never both. A message for a default action carries the action
  name only, and has empty text. A message derived from the stories either comes from a
  user utterance and carries the intent attribute only, or comes from an action event and
  carries the action name together with the action text; the action text always repeats
  the text of the message, which is the end-to-end text of the event, or the empty string
  when the event has none.
\<close>

theorem synthesized_message_attributes:
  "(m \<in> set (training_examples (additional_training_data_from_default_actions names)) \<longrightarrow>
      dom (data m) = {MESSAGE_ACTION_NAME} \<and> message_text m = '''') \<and>
   (additional_training_data_from_stories self = (Inr td, self') \<and>
    m \<in> set (training_examples td) \<longrightarrow>
      (\<exists>u. m = messages_from_user_utterance u \<and> dom (data m) = {MESSAGE_INTENT_NAME}) \<or>
      (\<exists>a. m = messages_from_action a \<and>
           dom (data m) = {MESSAGE_ACTION_NAME, ACTION_TEXT} \<and>
           data m ACTION_TEXT = Some (message_text m) \<and>
           message_text m = or_empty (e2e_text a)))"
proof -
  have user: "dom (data (messages_from_user_utterance u)) = {MESSAGE_INTENT_NAME}" for u
    by (simp add: messages_from_user_utterance_def)
  have action: "dom (data (messages_from_action a)) = {MESSAGE_ACTION_NAME, ACTION_TEXT}"
      "data (messages_from_action a) ACTION_TEXT = Some (message_text (messages_from_action a))"
      "message_text (messages_from_action a) = or_empty (e2e_text a)" for a
    by (auto simp: messages_from_action_def)
  have default: "dom (data m) = {MESSAGE_ACTION_NAME} \<and> message_text m = ''''"
    if "m \<in> set (training_examples (additional_training_data_from_default_actions names))"
    using that
    by (auto simp: additional_training_data_from_default_actions_def split: if_splits)
  have story: "(\<exists>u. m = messages_from_user_utterance u) \<or> (\<exists>a. m = messages_from_action a)"
    if h: "additional_training_data_from_stories self = (Inr td, self') \<and>
           m \<in> set (training_examples td)"
  proof -
    from h obtain stories where
      s: "E2EImporter_get_stories self default_story_args = (Inr stories, self')"
      by (auto simp: additional_training_data_from_stories_def split: prod.splits sum.splits)
    from h additional_training_data_from_stories_ok [OF s]
    have "m \<in> set (List.map_filter message_from_conversation_event
                     (concat (map events (story_steps stories))))"
      by auto
    then obtain event where "message_from_conversation_event event = Some m"
      by (auto dest: map_filter_in)
    then show ?thesis
      by (auto simp: message_from_conversation_event_def split: Event.splits)
  qed
  show ?thesis
    using user action default story by blast
qed

theorem synthesized_message_attributes_witness:
  "\<lparr>message_text = '''', data = [MESSAGE_ACTION_NAME \<mapsto> ''action_listen'']\<rparr>
     \<in> set (training_examples (additional_training_data_from_default_actions [''action_listen''])) \<and>
   dom (data \<lparr>message_text = '''', data = [MESSAGE_ACTION_NAME \<mapsto> ''action_listen'']\<rparr>)
     = {MESSAGE_ACTION_NAME} \<and>
   additional_training_data_from_stories
     \<lparr>importer = fixed_importer Domain_empty greeting_stories (None :: int Dict option)
                   (TrainingData []),
      cached_stories = Some booking_stories, get_stories_calls = []\<rparr>
     = (Inr (TrainingData
          [\<lparr>message_text = ''book a table'', data = [MESSAGE_INTENT_NAME \<mapsto> ''reserve'']\<rparr>,
           \<lparr>message_text = ''Sure, done!'',
            data = [MESSAGE_ACTION_NAME \<mapsto> ''utter_confirm'', ACTION_TEXT \<mapsto> ''Sure, done!'']\<rparr>]),
        \<lparr>importer = fixed_importer Domain_empty greeting_stories (None :: int Dict option)
                   (TrainingData []),
         cached_stories = Some booking_stories, get_stories_calls = []\<rparr>) \<and>
   dom (data \<lparr>message_text = ''Sure, done!'',
              data = [MESSAGE_ACTION_NAME \<mapsto> ''utter_confirm'', ACTION_TEXT \<mapsto> ''Sure, done!'']\<rparr>)
     = {MESSAGE_ACTION_NAME, ACTION_TEXT}"
proof -
  let ?default = "\<lparr>message_text = '''', data = [MESSAGE_ACTION_NAME \<mapsto> ''action_listen'']\<rparr>"
  let ?user = "\<lparr>message_text = ''book a table'', data = [MESSAGE_INTENT_NAME \<mapsto> ''reserve'']\<rparr>"
  let ?action = "\<lparr>message_text = ''Sure, done!'',
            data = [MESSAGE_ACTION_NAME \<mapsto> ''utter_confirm'', ACTION_TEXT \<mapsto> ''Sure, done!'']\<rparr>"
  let ?self = "\<lparr>importer = fixed_importer Domain_empty greeting_stories (None :: int Dict option)
                   (TrainingData []),
      cached_stories = Some booking_stories, get_stories_calls = []\<rparr>"
  have d: "?default
     \<in> set (training_examples (additional_training_data_from_default_actions [''action_listen'']))"
    by (simp add: additional_training_data_from_default_actions_def)
  have s: "additional_training_data_from_stories ?self = (Inr (TrainingData [?user, ?action]), ?self)"
    by (simp add: additional_training_data_from_stories_def E2EImporter_get_stories_def
        booking_stories_def message_from_conversation_event_def messages_from_action_def
        messages_from_user_utterance_def)
  have a: "?action \<in> set (training_examples (TrainingData [?user, ?action]))"
    by simp
  from synthesized_message_attributes
         [of ?default "[''action_listen'']" ?self "TrainingData []" ?self,
          THEN conjunct1, THEN mp, OF d]
  have c1: "dom (data ?default) = {MESSAGE_ACTION_NAME}"
    by (rule conjunct1)
  from synthesized_message_attributes
         [of ?action "[]" ?self "TrainingData [?user, ?action]" ?self,
          THEN conjunct2, THEN mp, OF conjI [OF s a]]
  have c2: "dom (data ?action) = {MESSAGE_ACTION_NAME, ACTION_TEXT}"
  proof (elim disjE exE conjE)
    fix u
    assume "dom (data ?action) = {MESSAGE_INTENT_NAME}"
    then show ?thesis by auto
  next
    fix a
    assume "dom (data ?action) = {MESSAGE_ACTION_NAME, ACTION_TEXT}"
    then show ?thesis .
  qed
  show ?thesis
    by (rule conjI [OF d conjI [OF c1 conjI [OF s c2]]])
qed

section \<open>E2EImporter: NLU data only\<close>

text \<open>
  Claim C1, evaluated where it fails. With the one default action "action_listen", a
  wrapped importer without NLU data and \<^verbatim>\<open>only_nlu\<close> set, \<^verbatim>\<open>get_nlu_data\<close> returns empty
  training data: the example synthesized for the default action is not in it. The same
  call without \<^verbatim>\<open>only_nlu\<close> returns that example first, followed by the messages of the
  stories. Both hold in whatever order the gathered calls finish.
\<close>

theorem only_nlu_drops_default_action_examples:
  "E2EImporter_get_nlu_data [''action_listen''] finished
      (E2EImporter_init
         (fixed_importer Domain_empty booking_stories (None :: int Dict option) (TrainingData [])))
      (Some ''en'') True
     = (Inr (TrainingData []),
        E2EImporter_init
         (fixed_importer Domain_empty booking_stories (None :: int Dict option) (TrainingData []))) \<and>
   training_examples (additional_training_data_from_default_actions [''action_listen''])
     = [\<lparr>message_text = '''', data = [MESSAGE_ACTION_NAME \<mapsto> ''action_listen'']\<rparr>] \<and>
   fst (E2EImporter_get_nlu_data [''action_listen''] finished
      (E2EImporter_init
         (fixed_importer Domain_empty booking_stories (None :: int Dict option) (TrainingData [])))
      (Some ''en'') False)
     = Inr (TrainingData
         [\<lparr>message_text = '''', data = [MESSAGE_ACTION_NAME \<mapsto> ''action_listen'']\<rparr>,
          \<lparr>message_text = ''book a table'', data = [MESSAGE_INTENT_NAME \<mapsto> ''reserve'']\<rparr>,
          \<lparr>message_text = ''Sure, done!'',
           data = [MESSAGE_ACTION_NAME \<mapsto> ''utter_confirm'', ACTION_TEXT \<mapsto> ''Sure, done!'']\<rparr>])"
  by (simp add: E2EImporter_get_nlu_data_def additional_training_data_from_stories_def
      E2EImporter_get_stories_def E2EImporter_init_def fixed_importer_def booking_stories_def
      additional_training_data_from_default_actions_def TrainingData_merge_def
      message_from_conversation_event_def messages_from_action_def
      messages_from_user_utterance_def default_story_args_def gather_one gather_two)

end
